theory Spec2Isabelle
  imports Main "HOL-Library.AList"
begin

section \<open>Python values and dictionaries\<close>

text \<open>
  Payloads, collection metadata and the documents built by the aggregation are Python
  dictionaries holding JSON values. \<open>pyval\<close> is that value type; a JSON number with a
  fraction (a Python float) is not part of it. A dictionary with string keys is an
  association list in insertion order, read with \<open>map_of\<close>.
\<close>

datatype pyval =
    PNone
  | PBool bool
  | PInt int
  | PStr string
  | PList "pyval list"
  | PDict "(string \<times> pyval) list"

type_synonym pydict = "(string \<times> pyval) list"

text \<open>\<^verbatim>\<open>d.get(k)\<close>: the value, or \<^verbatim>\<open>None\<close> when the key is absent.\<close>

definition dict_get :: "pydict \<Rightarrow> string \<Rightarrow> pyval" where
  "dict_get d k = (case map_of d k of None \<Rightarrow> PNone | Some v \<Rightarrow> v)"

text \<open>\<^verbatim>\<open>d.get(k, default)\<close>.\<close>

definition dict_get_default :: "pydict \<Rightarrow> string \<Rightarrow> pyval \<Rightarrow> pyval" where
  "dict_get_default d k dflt = (case map_of d k of None \<Rightarrow> dflt | Some v \<Rightarrow> v)"

text \<open>\<^verbatim>\<open>x or {}\<close> on an optional dictionary: \<^verbatim>\<open>None\<close> and the empty dictionary are falsy.\<close>

definition or_empty :: "pydict option \<Rightarrow> pydict" where
  "or_empty d = (case d of None \<Rightarrow> [] | Some [] \<Rightarrow> [] | Some (x # xs) \<Rightarrow> x # xs)"

text \<open>\<^verbatim>\<open>x or 0\<close> on an optional integer: \<^verbatim>\<open>None\<close> and \<^verbatim>\<open>0\<close> are falsy.\<close>

definition or_zero :: "int option \<Rightarrow> int" where
  "or_zero n = (case n of None \<Rightarrow> 0 | Some k \<Rightarrow> (if k = 0 then 0 else k))"

text \<open>An \<^verbatim>\<open>Optional[str]\<close> as a value.\<close>

definition opt_str :: "string option \<Rightarrow> pyval" where
  "opt_str d = (case d of None \<Rightarrow> PNone | Some t \<Rightarrow> PStr t)"

text \<open>
  A value used as a dictionary key is hashed first: lists and dictionaries are
  unhashable (\<^verbatim>\<open>TypeError\<close>). Keys are compared with \<^verbatim>\<open>==\<close>, under which \<^verbatim>\<open>True\<close>
  and \<^verbatim>\<open>1\<close> (and \<^verbatim>\<open>False\<close> and \<^verbatim>\<open>0\<close>) are one key; \<open>py_key\<close> maps a hashable value
  to the representative of its class, so that two hashable values are the same key
  exactly when their \<open>py_key\<close>s are equal.
\<close>

fun py_hashable :: "pyval \<Rightarrow> bool" where
  "py_hashable (PList xs) = False"
| "py_hashable (PDict d) = False"
| "py_hashable v = True"

fun py_key :: "pyval \<Rightarrow> pyval" where
  "py_key (PBool b) = PInt (if b then 1 else 0)"
| "py_key v = v"

section \<open>Errors\<close>

text \<open>
  The manager raises \<^verbatim>\<open>ValueError\<close> with one of four messages; \<open>value_error\<close> names
  them by what the message says:
  \<^item> \<open>AlreadyExists n\<close>: \<^verbatim>\<open>La coleccion 'n' ya existe\<close>;
  \<^item> \<open>CollectionNotFound n\<close>: \<^verbatim>\<open>La coleccion 'n' no existe\<close>;
  \<^item> \<open>CollectionNotEmpty n\<close>: \<^verbatim>\<open>La coleccion 'n' tiene vectores. Use force=true.\<close>;
  \<^item> \<open>DocumentNotFound f n\<close>: \<^verbatim>\<open>No se encontraron puntos con filename='f' en la coleccion 'n'\<close>.
  \<open>ValidationError fields\<close> is pydantic's exception, a subclass of \<^verbatim>\<open>ValueError\<close>, raised
  when a model is built from values its fields do not admit; it names the failing fields.
  The other exceptions are the interpreter's (\<^verbatim>\<open>TypeError\<close>, \<^verbatim>\<open>NameError\<close>,
  \<^verbatim>\<open>AttributeError\<close>) and the client's (\<open>UnexpectedResponse\<close> with the store's status).
\<close>

datatype value_error =
    AlreadyExists string
  | CollectionNotFound string
  | CollectionNotEmpty string
  | DocumentNotFound string string
  | ValidationError "string list"

datatype type_error =
    Unhashable
  | NotOrderable

datatype error =
    ValueError value_error
  | TypeError type_error
  | NameError string
  | AttributeError string
  | UnexpectedResponse nat

section \<open>The vector store behind the client\<close>

text \<open>
  The store is an external service reached through \<^verbatim>\<open>self._client\<close>. The model keeps what
  the manager reads and writes: per collection its vector parameters, metadata, the
  counters and status it reports, its payload indexes and its points. \<open>calls\<close> records, in
  order, every mutating call the manager issues to the client, whether or not the store
  accepts it. \<open>refused_indexes\<close> lists the payload fields for which the store rejects
  index creation (any exception of \<^verbatim>\<open>create_payload_index\<close>). Transport failures of the
  other calls are not modelled.

  The store validates the vector parameters of a collection: the size is between 1 and
  65536. \<open>vector_params\<close> is \<^verbatim>\<open>VectorParams\<close> as a caller builds it, with any integer
  size; \<open>stored_vectors\<close> is the \<^verbatim>\<open>VectorParams\<close> of a collection the store holds, read
  by \<open>params_of\<close> (\<^verbatim>\<open>info.config.params.vectors\<close>).
\<close>

datatype distance = COSINE | EUCLID | DOT | MANHATTAN

datatype payload_schema_type =
  KEYWORD | INTEGER | FLOAT | GEO | TEXT | BOOL | DATETIME | UUID

datatype collection_status = GREEN | YELLOW | GREY | RED

record vector_params =
  vsize :: int
  distance :: distance

definition valid_vector_params :: "vector_params \<Rightarrow> bool" where
  "valid_vector_params vp = (1 \<le> vsize vp \<and> vsize vp \<le> 65536)"

typedef stored_vectors = "{vp :: vector_params. valid_vector_params vp}"
  morphisms params_of store_params
  by (rule exI [of _ "\<lparr>vsize = 1, distance = COSINE\<rparr>"]) (simp add: valid_vector_params_def)

setup_lifting type_definition_stored_vectors

declare params_of_inverse [code abstype]

text \<open>
  The parameters the store keeps for a collection it creates: those of the call, which it
  has validated (for parameters it does not admit, which it never keeps, the least size
  stands in).
\<close>

lift_definition kept_params :: "vector_params \<Rightarrow> stored_vectors" is
  "\<lambda>vp. if valid_vector_params vp then vp else vp\<lparr>vsize := 1\<rparr>"
  by (simp add: valid_vector_params_def)

instantiation stored_vectors :: equal
begin

definition equal_stored_vectors :: "stored_vectors \<Rightarrow> stored_vectors \<Rightarrow> bool" where
  "equal_stored_vectors v w \<longleftrightarrow> params_of v = params_of w"

instance
  by standard (simp add: equal_stored_vectors_def params_of_inject)

end

record point =
  point_id :: nat
  payload :: "pydict option"

record collection =
  vectors :: stored_vectors
  metadata :: "pydict option"
  points_count :: "int option"
  indexed_vectors_count :: "int option"
  status :: collection_status
  payload_indexes :: "(string \<times> payload_schema_type) list"
  points :: "point list"

text \<open>
  A filter as the manager builds it:
  \<^verbatim>\<open>Filter(must=[FieldCondition(key=k, match=MatchValue(value=v))])\<close>.
\<close>

datatype field_condition = FieldCondition string pyval

datatype filter_must = Filter "field_condition list"

datatype client_call =
    CreateCollection string vector_params "pydict option"
  | UpdateCollection string pydict
  | DeleteCollection string
  | CreatePayloadIndex string string payload_schema_type
  | DeletePoints string filter_must

record store =
  collections :: "(string \<times> collection) list"
  calls :: "client_call list"
  refused_indexes :: "string list"

type_synonym 'a outcome = "(error + 'a) \<times> store"

definition log_call :: "client_call \<Rightarrow> store \<Rightarrow> store" where
  "log_call c s = s\<lparr>calls := calls s @ [c]\<rparr>"

text \<open>\<^verbatim>\<open>client.get_collections().collections\<close>, by name.\<close>

definition client_get_collections :: "store \<Rightarrow> string list" where
  "client_get_collections s = map fst (collections s)"

text \<open>\<^verbatim>\<open>client.get_collection(name)\<close>: the store answers 404 for a missing collection.\<close>

definition client_get_collection :: "store \<Rightarrow> string \<Rightarrow> error + collection" where
  "client_get_collection s name =
     (case map_of (collections s) name of
        None \<Rightarrow> Inl (UnexpectedResponse 404)
      | Some c \<Rightarrow> Inr c)"

text \<open>A collection as the store creates it: no points, no indexes.\<close>

definition new_collection :: "stored_vectors \<Rightarrow> pydict option \<Rightarrow> collection" where
  "new_collection vp md =
     \<lparr>vectors = vp, metadata = md, points_count = Some 0, indexed_vectors_count = Some 0,
      status = GREEN, payload_indexes = [], points = []\<rparr>"

text \<open>\<^verbatim>\<open>client.create_collection(...)\<close>: the store answers 422 when it does not admit the
  vector parameters and 409 when the name is taken; the client raises on either.\<close>

definition client_create_collection ::
  "store \<Rightarrow> string \<Rightarrow> vector_params \<Rightarrow> pydict option \<Rightarrow> unit outcome" where
  "client_create_collection s name vp md =
     (let s1 = log_call (CreateCollection name vp md) s in
      if \<not> valid_vector_params vp then (Inl (UnexpectedResponse 422), s1)
      else if name \<in> set (map fst (collections s1)) then (Inl (UnexpectedResponse 409), s1)
      else (Inr (), s1\<lparr>collections :=
              collections s1 @ [(name, new_collection (kept_params vp) md)]\<rparr>))"

text \<open>\<^verbatim>\<open>client.delete_collection(name)\<close>.\<close>

definition client_delete_collection :: "store \<Rightarrow> string \<Rightarrow> store" where
  "client_delete_collection s name =
     (let s1 = log_call (DeleteCollection name) s in
      s1\<lparr>collections := AList.delete name (collections s1)\<rparr>)"

text \<open>
  \<^verbatim>\<open>client.update_collection(collection_name, metadata)\<close>. Whether the store replaces the
  stored metadata by the written one or merges the two is the store's choice:
  \<open>write_md\<close> is that choice, taking the stored and the written metadata.
\<close>

definition client_update_collection ::
  "(pydict option \<Rightarrow> pydict \<Rightarrow> pydict option) \<Rightarrow> store \<Rightarrow> string \<Rightarrow> pydict \<Rightarrow> unit outcome" where
  "client_update_collection write_md s name md =
     (let s1 = log_call (UpdateCollection name md) s in
      if name \<in> set (map fst (collections s1))
      then (Inr (), s1\<lparr>collections :=
              AList.map_entry name (\<lambda>c. c\<lparr>metadata := write_md (metadata c) md\<rparr>) (collections s1)\<rparr>)
      else (Inl (UnexpectedResponse 404), s1))"

text \<open>\<^verbatim>\<open>client.create_payload_index(collection_name, field_name, field_schema)\<close>.\<close>

definition client_create_payload_index ::
  "store \<Rightarrow> string \<Rightarrow> string \<Rightarrow> payload_schema_type \<Rightarrow> unit outcome" where
  "client_create_payload_index s name field schema =
     (let s1 = log_call (CreatePayloadIndex name field schema) s in
      if name \<notin> set (map fst (collections s1)) then (Inl (UnexpectedResponse 404), s1)
      else if field \<in> set (refused_indexes s1) then (Inl (UnexpectedResponse 400), s1)
      else (Inr (), s1\<lparr>collections :=
              AList.map_entry name
                (\<lambda>c. c\<lparr>payload_indexes := AList.update field schema (payload_indexes c)\<rparr>)
                (collections s1)\<rparr>))"

section \<open>Collection manager: CRUD\<close>

text \<open>What the operations return: \<^verbatim>\<open>{"success": True, "collection_name": ..., "message": ...}\<close>.
  The message names the operation: \<^verbatim>\<open>creada\<close>, \<^verbatim>\<open>actualizada\<close>, \<^verbatim>\<open>eliminada\<close>,
  \<^verbatim>\<open>limpiada correctamente\<close>, or \<^verbatim>\<open>Eliminados n chunks del documento 'f'\<close>.\<close>

datatype message =
    Created string
  | Updated string
  | Deleted string
  | Cleared string
  | DeletedChunks nat string

record op_result =
  success :: bool
  collection_name :: string
  message :: message

definition DEFAULT_PAYLOAD_INDEXES :: "(string \<times> payload_schema_type) list" where
  "DEFAULT_PAYLOAD_INDEXES =
     [(''document_hash'', KEYWORD),
      (''filename'', KEYWORD),
      (''format'', KEYWORD),
      (''chunk'', INTEGER),
      (''total_pages'', INTEGER),
      (''date'', KEYWORD)]"

definition collection_exists :: "store \<Rightarrow> string \<Rightarrow> bool" where
  "collection_exists s name = (name \<in> set (client_get_collections s))"

definition distance_map :: "(string \<times> distance) list" where
  "distance_map = [(''Cosine'', COSINE), (''Euclid'', EUCLID), (''Dot'', DOT)]"

text \<open>\<^verbatim>\<open>distance_map.get(distance, Distance.COSINE)\<close>.\<close>

definition distance_metric :: "string \<Rightarrow> distance" where
  "distance_metric d = (case map_of distance_map d of None \<Rightarrow> COSINE | Some m \<Rightarrow> m)"

text \<open>The loop over \<^verbatim>\<open>DEFAULT_PAYLOAD_INDEXES.items()\<close>: an exception of the client is
  printed and the loop goes on.\<close>

fun create_payload_indexes ::
  "store \<Rightarrow> string \<Rightarrow> (string \<times> payload_schema_type) list \<Rightarrow> store" where
  "create_payload_indexes s name [] = s"
| "create_payload_indexes s name ((field, schema) # rest) =
     (case client_create_payload_index s name field schema of
        (Inl e, s1) \<Rightarrow> create_payload_indexes s1 name rest
      | (Inr u, s1) \<Rightarrow> create_payload_indexes s1 name rest)"

text \<open>\<open>now\<close> is \<^verbatim>\<open>datetime.utcnow().isoformat()\<close> at the call.\<close>

definition create_collection ::
  "string \<Rightarrow> store \<Rightarrow> string \<Rightarrow> string option \<Rightarrow> int \<Rightarrow> string \<Rightarrow> op_result outcome" where
  "create_collection now s name description vector_size dist =
     (if collection_exists s name then (Inl (ValueError (AlreadyExists name)), s)
      else
        let md = [(''description'', opt_str description), (''created_at'', PStr now)] in
        case client_create_collection s name
               \<lparr>vsize = vector_size, distance = distance_metric dist\<rparr> (Some md) of
          (Inl e, s1) \<Rightarrow> (Inl e, s1)
        | (Inr u, s1) \<Rightarrow>
            (Inr \<lparr>success = True, collection_name = name, message = Created name\<rparr>,
             create_payload_indexes s1 name DEFAULT_PAYLOAD_INDEXES))"

record CollectionStats =
  cs_name :: string
  cs_description :: "string option"
  cs_vector_size :: int
  cs_distance :: distance
  cs_points_count :: int
  cs_indexed_vectors_count :: int
  cs_status :: collection_status
  cs_created_at :: "string option"

text \<open>
  A field declared \<^verbatim>\<open>Optional[str]\<close> admits \<^verbatim>\<open>None\<close> and a string; pydantic refuses
  any other value (its version 1 would turn a number into a string instead).
\<close>

fun optional_str :: "pyval \<Rightarrow> string option option" where
  "optional_str PNone = Some None"
| "optional_str (PStr t) = Some (Some t)"
| "optional_str v = None"

text \<open>The \<^verbatim>\<open>CollectionStats(...)\<close> built from a collection's info, in \<^verbatim>\<open>list_collections\<close>
  and \<^verbatim>\<open>get_collection_info\<close> alike: the constructor validates \<^verbatim>\<open>description\<close> and
  \<^verbatim>\<open>created_at\<close>, which come from the metadata, and raises one \<^verbatim>\<open>ValidationError\<close>
  naming every field that fails. The other arguments have their field's type.
  \<open>cs_distance\<close> and \<open>cs_status\<close> stand for the enum members' names.\<close>

definition stats_of :: "string \<Rightarrow> collection \<Rightarrow> error + CollectionStats" where
  "stats_of name info =
     (let md = or_empty (metadata info) in
      case (optional_str (dict_get md ''description''),
            optional_str (dict_get md ''created_at'')) of
        (Some description, Some created_at) \<Rightarrow>
          Inr \<lparr>cs_name = name,
               cs_description = description,
               cs_vector_size = vsize (params_of (vectors info)),
               cs_distance = distance (params_of (vectors info)),
               cs_points_count = or_zero (points_count info),
               cs_indexed_vectors_count = or_zero (indexed_vectors_count info),
               cs_status = status info,
               cs_created_at = created_at\<rparr>
      | (None, Some created_at) \<Rightarrow> Inl (ValueError (ValidationError [''description'']))
      | (Some description, None) \<Rightarrow> Inl (ValueError (ValidationError [''created_at'']))
      | (None, None) \<Rightarrow> Inl (ValueError (ValidationError [''description'', ''created_at''])))"

text \<open>The loop of \<^verbatim>\<open>list_collections\<close>, with \<open>result\<close> the list built so far.\<close>

fun list_collections_loop ::
  "store \<Rightarrow> CollectionStats list \<Rightarrow> string list \<Rightarrow> error + CollectionStats list" where
  "list_collections_loop s result [] = Inr result"
| "list_collections_loop s result (col # cols) =
     (case client_get_collection s col of
        Inl e \<Rightarrow> Inl e
      | Inr info \<Rightarrow>
          (case stats_of col info of
             Inl e \<Rightarrow> Inl e
           | Inr stats \<Rightarrow> list_collections_loop s (result @ [stats]) cols))"

definition list_collections :: "store \<Rightarrow> error + CollectionStats list" where
  "list_collections s = list_collections_loop s [] (client_get_collections s)"

definition get_collection_info :: "store \<Rightarrow> string \<Rightarrow> error + CollectionStats" where
  "get_collection_info s name =
     (if \<not> collection_exists s name then Inl (ValueError (CollectionNotFound name))
      else case client_get_collection s name of
             Inl e \<Rightarrow> Inl e
           | Inr info \<Rightarrow> stats_of name info)"

definition update_collection ::
  "(pydict option \<Rightarrow> pydict \<Rightarrow> pydict option) \<Rightarrow> string \<Rightarrow> store \<Rightarrow> string \<Rightarrow> string option
     \<Rightarrow> op_result outcome" where
  "update_collection write_md now s name description =
     (if \<not> collection_exists s name then (Inl (ValueError (CollectionNotFound name)), s)
      else
        let md = [(''description'', opt_str description), (''updated_at'', PStr now)] in
        case client_update_collection write_md s name md of
          (Inl e, s1) \<Rightarrow> (Inl e, s1)
        | (Inr u, s1) \<Rightarrow>
            (Inr \<lparr>success = True, collection_name = name, message = Updated name\<rparr>, s1))"

text \<open>\<^verbatim>\<open>info.points_count > 0 and not force\<close>: the comparison is evaluated first, and
  \<^verbatim>\<open>None > 0\<close> raises \<^verbatim>\<open>TypeError\<close>.\<close>

definition delete_collection :: "store \<Rightarrow> string \<Rightarrow> bool \<Rightarrow> op_result outcome" where
  "delete_collection s name force =
     (if \<not> collection_exists s name then (Inl (ValueError (CollectionNotFound name)), s)
      else case client_get_collection s name of
             Inl e \<Rightarrow> (Inl e, s)
           | Inr info \<Rightarrow>
               (case points_count info of
                  None \<Rightarrow> (Inl (TypeError NotOrderable), s)
                | Some n \<Rightarrow>
                    if n > 0 \<and> \<not> force then (Inl (ValueError (CollectionNotEmpty name)), s)
                    else (Inr \<lparr>success = True, collection_name = name, message = Deleted name\<rparr>,
                          client_delete_collection s name)))"

definition clear_collection :: "store \<Rightarrow> string \<Rightarrow> op_result outcome" where
  "clear_collection s name =
     (if \<not> collection_exists s name then (Inl (ValueError (CollectionNotFound name)), s)
      else case client_get_collection s name of
             Inl e \<Rightarrow> (Inl e, s)
           | Inr info \<Rightarrow>
               (let md = metadata info;
                    s1 = client_delete_collection s name in
                case client_create_collection s1 name (params_of (vectors info)) md of
                  (Inl e, s2) \<Rightarrow> (Inl e, s2)
                | (Inr u, s2) \<Rightarrow>
                    (Inr \<lparr>success = True, collection_name = name, message = Cleared name\<rparr>, s2)))"

section \<open>Collection manager: documents\<close>

text \<open>
  A condition \<^verbatim>\<open>FieldCondition(key, MatchValue(value))\<close> holds of a point whose payload
  has the value under the key, or a list containing it.
\<close>

fun condition_holds :: "point \<Rightarrow> field_condition \<Rightarrow> bool" where
  "condition_holds p (FieldCondition k v) =
     (case map_of (or_empty (payload p)) k of
        None \<Rightarrow> False
      | Some (PList xs) \<Rightarrow> v \<in> set xs
      | Some w \<Rightarrow> w = v)"

fun matches :: "filter_must \<Rightarrow> point \<Rightarrow> bool" where
  "matches (Filter conds) p = list_all (condition_holds p) conds"

text \<open>
  \<^verbatim>\<open>client.scroll(collection_name, scroll_filter, limit, offset, with_payload)\<close> returns a
  page of at most \<open>limit\<close> points and the cursor of the next page, \<^verbatim>\<open>None\<close> after the
  last one. The cursor is the position in the store's scan order of the (matching)
  points.
\<close>

definition client_scroll ::
  "store \<Rightarrow> string \<Rightarrow> filter_must option \<Rightarrow> nat \<Rightarrow> nat option \<Rightarrow> bool
     \<Rightarrow> error + (point list \<times> nat option)" where
  "client_scroll s name flt limit offset with_payload =
     (case map_of (collections s) name of
        None \<Rightarrow> Inl (UnexpectedResponse 404)
      | Some c \<Rightarrow>
          (let ps = (case flt of None \<Rightarrow> points c | Some f \<Rightarrow> filter (matches f) (points c));
               off = (case offset of None \<Rightarrow> 0 | Some n \<Rightarrow> n);
               page = take limit (drop off ps)
           in Inr (map (\<lambda>p. if with_payload then p else p\<lparr>payload := None\<rparr>) page,
                   if off + limit < length ps then Some (off + limit) else None)))"

text \<open>\<^verbatim>\<open>client.delete(collection_name, points_selector=filter)\<close>: the matching points go,
  and a reported count goes down by their number.\<close>

definition client_delete_points :: "store \<Rightarrow> string \<Rightarrow> filter_must \<Rightarrow> store" where
  "client_delete_points s name flt =
     (let s1 = log_call (DeletePoints name flt) s in
      s1\<lparr>collections :=
           AList.map_entry name
             (\<lambda>c. c\<lparr>points := filter (\<lambda>p. \<not> matches flt p) (points c),
                    points_count :=
                      map_option (\<lambda>n. n - int (length (filter (matches flt) (points c))))
                        (points_count c)\<rparr>)
             (collections s1)\<rparr>)"

text \<open>
  The names bound in the module namespace of \<^verbatim>\<open>qdrant_manager.py\<close>: its imports, its
  constants, its classes and its functions. A name a function body reads that is neither
  local nor bound here (nor a builtin; no builtin is called \<^verbatim>\<open>Filter\<close>,
  \<^verbatim>\<open>FieldCondition\<close> or \<^verbatim>\<open>MatchValue\<close>) raises \<^verbatim>\<open>NameError\<close> when it is evaluated.
\<close>

definition module_globals :: "string list" where
  "module_globals =
     [''os'', ''List'', ''Dict'', ''Any'', ''Optional'', ''datetime'',
      ''QdrantClient'', ''Distance'', ''VectorParams'', ''PayloadSchemaType'', ''BaseModel'',
      ''QDRANT_HOST'', ''QDRANT_PORT'', ''DEFAULT_VECTOR_SIZE'', ''DEFAULT_DISTANCE'',
      ''CollectionCreateRequest'', ''CollectionUpdateRequest'', ''CollectionStats'',
      ''DEFAULT_PAYLOAD_INDEXES'', ''QdrantCollectionManager'',
      ''_collection_manager'', ''get_collection_manager'']"

definition load_name :: "string list \<Rightarrow> string \<Rightarrow> error + unit" where
  "load_name globals n = (if n \<in> set globals then Inr () else Inl (NameError n))"

text \<open>
  \<^verbatim>\<open>Filter(must=[FieldCondition(key="filename", match=MatchValue(value=filename))])\<close>:
  the callee \<^verbatim>\<open>Filter\<close> is looked up first, then the argument is built, inside out.
\<close>

definition filename_filter :: "string list \<Rightarrow> string \<Rightarrow> error + filter_must" where
  "filename_filter globals fname =
     (case load_name globals ''Filter'' of
        Inl e \<Rightarrow> Inl e
      | Inr u \<Rightarrow>
          (case load_name globals ''FieldCondition'' of
             Inl e \<Rightarrow> Inl e
           | Inr u \<Rightarrow>
               (case load_name globals ''MatchValue'' of
                  Inl e \<Rightarrow> Inl e
                | Inr u \<Rightarrow> Inr (Filter [FieldCondition ''filename'' (PStr fname)]))))"

record delete_document_result = op_result +
  deleted_filename :: string
  deleted_points :: nat

text \<open>\<^verbatim>\<open>delete_document_by_filename\<close>, in a module namespace \<open>globals\<close>.\<close>

definition delete_document_by_filename_in ::
  "string list \<Rightarrow> store \<Rightarrow> string \<Rightarrow> string \<Rightarrow> delete_document_result outcome" where
  "delete_document_by_filename_in globals s cname fname =
     (if \<not> collection_exists s cname then (Inl (ValueError (CollectionNotFound cname)), s)
      else case filename_filter globals fname of
             Inl e \<Rightarrow> (Inl e, s)
           | Inr flt \<Rightarrow>
               (case client_scroll s cname (Some flt) 10000 None False of
                  Inl e \<Rightarrow> (Inl e, s)
                | Inr (points_to_delete, next_offset) \<Rightarrow>
                    (let total = length points_to_delete in
                     if total = 0 then (Inl (ValueError (DocumentNotFound fname cname)), s)
                     else case filename_filter globals fname of
                            Inl e \<Rightarrow> (Inl e, s)
                          | Inr selector \<Rightarrow>
                              (Inr \<lparr>success = True, collection_name = cname,
                                    message = DeletedChunks total fname,
                                    deleted_filename = fname, deleted_points = total\<rparr>,
                               client_delete_points s cname selector))))"

text \<open>The method as the module defines it.\<close>

definition delete_document_by_filename ::
  "store \<Rightarrow> string \<Rightarrow> string \<Rightarrow> delete_document_result outcome" where
  "delete_document_by_filename = delete_document_by_filename_in module_globals"

text \<open>
  The \<^verbatim>\<open>while True\<close> loop of \<^verbatim>\<open>list_documents_in_collection\<close>: pages of 100 points
  with their payloads are appended to \<^verbatim>\<open>all_points\<close> until the store returns no cursor.
\<close>

function scroll_all :: "store \<Rightarrow> string \<Rightarrow> nat option \<Rightarrow> point list \<Rightarrow> error + point list" where
  "scroll_all s cname offset all_points =
     (case client_scroll s cname None 100 offset True of
        Inl e \<Rightarrow> Inl e
      | Inr (pts, next_offset) \<Rightarrow>
          (case next_offset of
             None \<Rightarrow> Inr (all_points @ pts)
           | Some off \<Rightarrow> scroll_all s cname (Some off) (all_points @ pts)))"
  by pat_completeness auto
termination
  by (relation "measure (\<lambda>(s, cname, offset, acc).
        (case map_of (collections s) cname of None \<Rightarrow> 0 | Some c \<Rightarrow> length (points c))
        - (case offset of None \<Rightarrow> 0 | Some n \<Rightarrow> n))")
     (auto simp: client_scroll_def Let_def split: option.splits if_splits)

declare scroll_all.simps [simp del]

record document =
  filename :: pyval
  document_hash :: pyval
  format :: pyval
  total_pages :: pyval
  total_chunks :: pyval
  date :: pyval
  chunks_count :: int

text \<open>\<^verbatim>\<open>payload.get("filename", "unknown")\<close> of \<^verbatim>\<open>point.payload or {}\<close>.\<close>

definition point_filename :: "point \<Rightarrow> pyval" where
  "point_filename p = dict_get_default (or_empty (payload p)) ''filename'' (PStr ''unknown'')"

text \<open>The dictionary stored under a filename that is not in \<^verbatim>\<open>documents\<close> yet.\<close>

definition first_seen :: "point \<Rightarrow> document" where
  "first_seen p =
     (let pl = or_empty (payload p) in
      \<lparr>filename = point_filename p,
       document_hash = dict_get pl ''document_hash'',
       format = dict_get pl ''format'',
       total_pages = dict_get pl ''total_pages'',
       total_chunks = dict_get pl ''total_chunks'',
       date = dict_get pl ''date'',
       chunks_count = 0\<rparr>)"

text \<open>
  One round of the grouping loop. \<^verbatim>\<open>documents\<close> is a dictionary keyed by the filename
  value, here an association list in insertion order keyed by \<open>py_key\<close> of the filename;
  \<^verbatim>\<open>filename not in documents\<close> hashes the filename and raises \<^verbatim>\<open>TypeError\<close> on an
  unhashable one.
\<close>

definition group_point ::
  "(pyval \<times> document) list \<Rightarrow> point \<Rightarrow> error + (pyval \<times> document) list" where
  "group_point docs p =
     (let fname = point_filename p in
      if \<not> py_hashable fname then Inl (TypeError Unhashable)
      else
        let k = py_key fname;
            docs1 = (if map_of docs k = None then docs @ [(k, first_seen p)] else docs)
        in Inr (AList.map_entry k (\<lambda>d. d\<lparr>chunks_count := chunks_count d + 1\<rparr>) docs1))"

fun group_points ::
  "(pyval \<times> document) list \<Rightarrow> point list \<Rightarrow> error + (pyval \<times> document) list" where
  "group_points docs [] = Inr docs"
| "group_points docs (p # ps) =
     (case group_point docs p of
        Inl e \<Rightarrow> Inl e
      | Inr docs1 \<Rightarrow> group_points docs1 ps)"

record documents_listing =
  listed_collection :: string
  total_documents :: nat
  total_points :: nat
  documents :: "document list"

definition list_documents_in_collection :: "store \<Rightarrow> string \<Rightarrow> error + documents_listing" where
  "list_documents_in_collection s cname =
     (if \<not> collection_exists s cname then Inl (ValueError (CollectionNotFound cname))
      else case scroll_all s cname None [] of
             Inl e \<Rightarrow> Inl e
           | Inr all_points \<Rightarrow>
               (case group_points [] all_points of
                  Inl e \<Rightarrow> Inl e
                | Inr docs \<Rightarrow>
                    Inr \<lparr>listed_collection = cname,
                         total_documents = length docs,
                         total_points = length all_points,
                         documents = map snd docs\<rparr>))"

section \<open>HTTP layer\<close>

text \<open>
  An endpoint returns its result (status 200) or raises \<^verbatim>\<open>HTTPException\<close>: the handler
  \<^verbatim>\<open>except ValueError\<close> gives the endpoint's client-error status, \<^verbatim>\<open>except Exception\<close>
  gives 500.
\<close>

datatype 'a http = Response nat 'a | HTTPException nat error

fun http_status :: "'a http \<Rightarrow> nat" where
  "http_status (Response code body) = code"
| "http_status (HTTPException code e) = code"

fun http_error :: "nat \<Rightarrow> error \<Rightarrow> 'a http" where
  "http_error code (ValueError v) = HTTPException code (ValueError v)"
| "http_error code e = HTTPException 500 e"

text \<open>\<^verbatim>\<open>DELETE /api/collections/{collection_name}\<close>.\<close>

definition api_delete_collection :: "store \<Rightarrow> string \<Rightarrow> bool \<Rightarrow> op_result http \<times> store" where
  "api_delete_collection s cname force =
     (case delete_collection s cname force of
        (Inl e, s1) \<Rightarrow> (http_error 400 e, s1)
      | (Inr r, s1) \<Rightarrow> (Response 200 r, s1))"

text \<open>\<^verbatim>\<open>DELETE /api/collections/{collection_name}/documents/{filename:path}\<close>.\<close>

definition api_delete_document ::
  "store \<Rightarrow> string \<Rightarrow> string \<Rightarrow> delete_document_result http \<times> store" where
  "api_delete_document s cname fname =
     (case delete_document_by_filename s cname fname of
        (Inl e, s1) \<Rightarrow> (http_error 404 e, s1)
      | (Inr r, s1) \<Rightarrow> (Response 200 r, s1))"

text \<open>
  The attributes of a \<^verbatim>\<open>QdrantCollectionManager\<close>: what the class body binds. An
  attribute that is not among them (nor one of \<^verbatim>\<open>object\<close>'s) raises \<^verbatim>\<open>AttributeError\<close>.
\<close>

definition manager_attributes :: "string list" where
  "manager_attributes =
     [''_instance'', ''_client'', ''__new__'', ''__init__'',
      ''create_collection'', ''list_collections'', ''get_collection_info'',
      ''update_collection'', ''delete_collection'', ''clear_collection'',
      ''collection_exists'', ''delete_document_by_filename'',
      ''list_documents_in_collection'']"

definition distance_name :: "distance \<Rightarrow> string" where
  "distance_name d =
     (case d of COSINE \<Rightarrow> ''COSINE'' | EUCLID \<Rightarrow> ''EUCLID'' | DOT \<Rightarrow> ''DOT''
      | MANHATTAN \<Rightarrow> ''MANHATTAN'')"

definition status_name :: "collection_status \<Rightarrow> string" where
  "status_name st =
     (case st of GREEN \<Rightarrow> ''GREEN'' | YELLOW \<Rightarrow> ''YELLOW'' | GREY \<Rightarrow> ''GREY'' | RED \<Rightarrow> ''RED'')"

text \<open>\<^verbatim>\<open>info.dict()\<close>.\<close>

definition stats_dict :: "CollectionStats \<Rightarrow> pydict" where
  "stats_dict info =
     [(''name'', PStr (cs_name info)),
      (''description'', opt_str (cs_description info)),
      (''vector_size'', PInt (cs_vector_size info)),
      (''distance'', PStr (distance_name (cs_distance info))),
      (''points_count'', PInt (cs_points_count info)),
      (''indexed_vectors_count'', PInt (cs_indexed_vectors_count info)),
      (''status'', PStr (status_name (cs_status info))),
      (''created_at'', opt_str (cs_created_at info))]"

text \<open>\<^verbatim>\<open>{**a, **b}\<close>.\<close>

definition dict_merge :: "pydict \<Rightarrow> pydict \<Rightarrow> pydict" where
  "dict_merge a b = foldl (\<lambda>d kv. AList.update (fst kv) (snd kv) d) a b"

text \<open>
  \<^verbatim>\<open>GET /api/collections/{collection_name}/stats\<close>, for a manager with the attributes
  \<open>attrs\<close>. \<open>counts\<close> is what a method \<^verbatim>\<open>get_collection_documents_count\<close> of the
  manager would compute; it runs only when the manager has an attribute of that name.
\<close>

definition api_get_collection_stats_in ::
  "string list \<Rightarrow> (store \<Rightarrow> string \<Rightarrow> error + pydict) \<Rightarrow> store \<Rightarrow> string \<Rightarrow> pydict http" where
  "api_get_collection_stats_in attrs counts s cname =
     (case get_collection_info s cname of
        Inl e \<Rightarrow> http_error 404 e
      | Inr info \<Rightarrow>
          if ''get_collection_documents_count'' \<notin> set attrs
          then http_error 404 (AttributeError ''get_collection_documents_count'')
          else (case counts s cname of
                  Inl e \<Rightarrow> http_error 404 e
                | Inr c \<Rightarrow> Response 200 (dict_merge (stats_dict info) c)))"

text \<open>The endpoint on the manager the module defines.\<close>

definition api_get_collection_stats ::
  "(store \<Rightarrow> string \<Rightarrow> error + pydict) \<Rightarrow> store \<Rightarrow> string \<Rightarrow> pydict http" where
  "api_get_collection_stats = api_get_collection_stats_in manager_attributes"

section \<open>Example stores\<close>

text \<open>A collection of five points, three of \<^verbatim>\<open>a.pdf\<close> and two of \<^verbatim>\<open>b.pdf\<close>; the
  first point of each file carries attributes that the later ones lack or contradict.\<close>

definition example_points :: "point list" where
  "example_points =
     [\<lparr>point_id = 1,
       payload = Some [(''filename'', PStr ''a.pdf''), (''document_hash'', PStr ''f282bcdb''),
                       (''format'', PStr ''pdf''), (''total_pages'', PInt 26),
                       (''total_chunks'', PInt 3), (''date'', PStr ''2026-01-20''),
                       (''chunk'', PInt 0)]\<rparr>,
      \<lparr>point_id = 2,
       payload = Some [(''filename'', PStr ''b.pdf''), (''format'', PStr ''pdf''),
                       (''chunk'', PInt 0)]\<rparr>,
      \<lparr>point_id = 3,
       payload = Some [(''filename'', PStr ''a.pdf''), (''format'', PStr ''PDF''),
                       (''chunk'', PInt 1)]\<rparr>,
      \<lparr>point_id = 4,
       payload = Some [(''filename'', PStr ''b.pdf''), (''total_pages'', PInt 7),
                       (''chunk'', PInt 1)]\<rparr>,
      \<lparr>point_id = 5,
       payload = Some [(''filename'', PStr ''a.pdf''), (''chunk'', PInt 2)]\<rparr>]"

definition example_collection :: collection where
  "example_collection =
     \<lparr>vectors = kept_params \<lparr>vsize = 768, distance = EUCLID\<rparr>,
      metadata = Some [(''description'', PStr ''demo''), (''created_at'', PStr ''2026-01-20'')],
      points_count = Some 5, indexed_vectors_count = Some 0, status = GREEN,
      payload_indexes = DEFAULT_PAYLOAD_INDEXES, points = example_points\<rparr>"

definition example_store :: store where
  "example_store =
     \<lparr>collections = [(''Curso_101'', example_collection)], calls = [], refused_indexes = []\<rparr>"

text \<open>A store with no collection, which refuses an index on \<^verbatim>\<open>chunk\<close>.\<close>

definition empty_store :: store where
  "empty_store = \<lparr>collections = [], calls = [], refused_indexes = [''chunk'']\<rparr>"

text \<open>The example store when it reports no \<^verbatim>\<open>points_count\<close>.\<close>

definition uncounted_store :: store where
  "uncounted_store =
     \<lparr>collections = [(''Curso_101'', example_collection\<lparr>points_count := None\<rparr>)],
      calls = [], refused_indexes = []\<rparr>"



section \<open>Notions used in the statements\<close>

text \<open>The payload fields for which a call list asks an index on collection \<open>name\<close>.\<close>

definition indexed_fields :: "string \<Rightarrow> client_call list \<Rightarrow> string list" where
  "indexed_fields name cs =
     concat (map (\<lambda>c. case c of
                         CreatePayloadIndex n f t \<Rightarrow> (if n = name then [f] else [])
                       | _ \<Rightarrow> [])
               cs)"





text \<open>The value a collection's metadata holds under a key, if any.\<close>

definition metadata_field :: "collection \<Rightarrow> string \<Rightarrow> pyval option" where
  "metadata_field c k = (case metadata c of None \<Rightarrow> None | Some md \<Rightarrow> map_of md k)"

text \<open>A metadata entry that is absent, null or a string.\<close>

definition text_or_absent :: "pyval option \<Rightarrow> bool" where
  "text_or_absent v =
     (case v of None \<Rightarrow> True | Some PNone \<Rightarrow> True | Some (PStr t) \<Rightarrow> True | Some w \<Rightarrow> False)"

text \<open>A collection whose \<^verbatim>\<open>description\<close> and \<^verbatim>\<open>created_at\<close> metadata are absent, null or
  strings.\<close>

definition textual_metadata :: "collection \<Rightarrow> bool" where
  "textual_metadata c =
     (text_or_absent (metadata_field c ''description'') \<and>
      text_or_absent (metadata_field c ''created_at''))"



section \<open>Existence and lookups\<close>

lemma exists_iff: "collection_exists s name \<longleftrightarrow> map_of (collections s) name \<noteq> None"
  by (simp add: collection_exists_def client_get_collections_def map_of_eq_None_iff)

lemma get_collection_exists:
  "client_get_collection s name = Inr c \<Longrightarrow> collection_exists s name"
  by (auto simp: exists_iff client_get_collection_def split: option.splits)

lemma get_collection_Some:
  "client_get_collection s name = Inr c \<longleftrightarrow> map_of (collections s) name = Some c"
  by (auto simp: client_get_collection_def split: option.splits)

lemma not_exists_after_delete:
  "\<not> collection_exists (client_delete_collection s name) name"
  by (simp add: collection_exists_def client_get_collections_def client_delete_collection_def
        log_call_def Let_def delete_notin_dom)


lemma valid_params_of: "valid_vector_params (params_of v)"
  using params_of [of v] by simp

lemma params_of_kept:
  "valid_vector_params vp \<Longrightarrow> params_of (kept_params vp) = vp"
  by (simp add: kept_params.rep_eq)

lemma kept_params_of: "kept_params (params_of v) = v"
  by (simp add: params_of_inject [symmetric] kept_params.rep_eq valid_params_of)

lemma list_all2_left: "list_all2 P xs ys \<Longrightarrow> x \<in> set xs \<Longrightarrow> \<exists>y \<in> set ys. P x y"
  by (induction rule: list_all2_induct) auto

lemma list_all2_right: "list_all2 P xs ys \<Longrightarrow> y \<in> set ys \<Longrightarrow> \<exists>x \<in> set xs. P x y"
  by (induction rule: list_all2_induct) auto

section \<open>Reading the statistics of a collection\<close>

lemma metadata_get:
  "dict_get (or_empty (metadata c)) k =
     (case metadata_field c k of None \<Rightarrow> PNone | Some v \<Rightarrow> v)"
  by (cases "metadata c"; cases "the (metadata c)")
     (auto simp: dict_get_def or_empty_def metadata_field_def)

lemma optional_str_textual:
  "text_or_absent (metadata_field c k) \<Longrightarrow>
   optional_str (dict_get (or_empty (metadata c)) k) \<noteq> None"
  unfolding metadata_get
  by (cases "metadata_field c k"; cases "the (metadata_field c k)")
     (auto simp: text_or_absent_def)

lemma stats_of_textual:
  assumes "textual_metadata c"
  shows "\<exists>info. stats_of name c = Inr info"
proof -
  from assms obtain d t where
    "optional_str (dict_get (or_empty (metadata c)) ''description'') = Some d"
    "optional_str (dict_get (or_empty (metadata c)) ''created_at'') = Some t"
    using optional_str_textual [of c "''description''"] optional_str_textual [of c "''created_at''"]
    by (auto simp: textual_metadata_def)
  then show ?thesis
    by (simp add: stats_of_def Let_def)
qed

lemma stats_of_fields:
  "stats_of name c = Inr info \<Longrightarrow>
   cs_name info = name \<and> cs_points_count info = or_zero (points_count c)"
  by (auto simp: stats_of_def Let_def split: option.splits)

lemma list_collections_loop_stats:
  assumes "set ns \<subseteq> fst ` set (collections s)"
      and "list_all textual_metadata (map snd (collections s))"
  shows "\<exists>infos. list_collections_loop s acc ns = Inr (acc @ infos) \<and>
           list_all2 (\<lambda>n info. \<exists>c. client_get_collection s n = Inr c \<and> stats_of n c = Inr info)
             ns infos"
  using assms(1)
proof (induction ns arbitrary: acc)
  case Nil
  then show ?case by simp
next
  case (Cons n ns)
  then have "map_of (collections s) n \<noteq> None"
    by (simp add: map_of_eq_None_iff)
  then obtain c where m: "map_of (collections s) n = Some c"
    by blast
  then have g: "client_get_collection s n = Inr c"
    by (simp add: get_collection_Some)
  from m have "c \<in> snd ` set (collections s)"
    by (metis image_eqI map_of_SomeD snd_conv)
  with assms(2) have "textual_metadata c"
    by (auto simp: list_all_iff)
  then obtain info where st: "stats_of n c = Inr info"
    using stats_of_textual by blast
  from Cons.prems have "set ns \<subseteq> fst ` set (collections s)"
    by simp
  from Cons.IH [OF this, of "acc @ [info]"] obtain infos where
    l: "list_collections_loop s (acc @ [info]) ns = Inr ((acc @ [info]) @ infos)" and
    a: "list_all2 (\<lambda>n info. \<exists>c. client_get_collection s n = Inr c \<and> stats_of n c = Inr info)
          ns infos"
    by blast
  from g st l have "list_collections_loop s acc (n # ns) = Inr (acc @ info # infos)"
    by simp
  moreover from g st a have
    "list_all2 (\<lambda>n info. \<exists>c. client_get_collection s n = Inr c \<and> stats_of n c = Inr info)
       (n # ns) (info # infos)"
    by simp
  ultimately show ?case
    by blast
qed

lemma list_collections_stats:
  assumes "list_all textual_metadata (map snd (collections s))"
  shows "\<exists>infos. list_collections s = Inr infos \<and>
           list_all2 (\<lambda>n info. \<exists>c. client_get_collection s n = Inr c \<and> stats_of n c = Inr info)
             (client_get_collections s) infos"
  using list_collections_loop_stats [OF _ assms, of "client_get_collections s" "[]"]
  by (simp add: list_collections_def client_get_collections_def)

section \<open>Creating a collection\<close>

lemma calls_create_payload_indexes:
  "calls (create_payload_indexes s name ixs) =
     calls s @ map (\<lambda>(f, t). CreatePayloadIndex name f t) ixs"
  by (induction s name ixs rule: create_payload_indexes.induct)
     (auto simp: client_create_payload_index_def log_call_def Let_def)

lemma create_collection_calls:
  "\<not> collection_exists s name \<Longrightarrow>
   calls (snd (create_collection now s name description vs d)) =
     calls s @ CreateCollection name \<lparr>vsize = vs, distance = distance_metric d\<rparr>
                 (Some [(''description'', opt_str description), (''created_at'', PStr now)])
             # (if valid_vector_params \<lparr>vsize = vs, distance = distance_metric d\<rparr>
                then map (\<lambda>(f, t). CreatePayloadIndex name f t) DEFAULT_PAYLOAD_INDEXES
                else [])"
  by (simp add: create_collection_def client_create_collection_def log_call_def Let_def
        collection_exists_def client_get_collections_def calls_create_payload_indexes)

text \<open>
  For a new name, the store accepts the create-collection call exactly when it admits
  the vector parameters.
\<close>

lemma create_accepted_iff:
  "\<not> collection_exists s name \<Longrightarrow>
   fst (client_create_collection s name vp md) = Inr () \<longleftrightarrow> valid_vector_params vp"
  by (simp add: client_create_collection_def log_call_def Let_def
        collection_exists_def client_get_collections_def)

text \<open>
  When the store rejects the create-collection call, \<open>create_collection\<close> raises the
  client's exception and issues no index call.
\<close>

lemma create_rejected_no_index:
  assumes "\<not> collection_exists s name"
      and "fst (client_create_collection s name \<lparr>vsize = vs, distance = distance_metric d\<rparr>
                 (Some [(''description'', opt_str description), (''created_at'', PStr now)]))
           = Inl e"
  shows "fst (create_collection now s name description vs d) = Inl e \<and>
         calls (snd (create_collection now s name description vs d)) =
           calls s @ [CreateCollection name \<lparr>vsize = vs, distance = distance_metric d\<rparr>
                        (Some [(''description'', opt_str description), (''created_at'', PStr now)])]"
  using assms
  by (auto simp: create_collection_def client_create_collection_def log_call_def Let_def
        collection_exists_def client_get_collections_def split: if_splits)

text \<open>
  C7. A name for which a collection exists makes \<open>create_collection\<close> raise the
  duplicate-name \<^verbatim>\<open>ValueError\<close>, whatever the description, the vector size and the
  distance are, and the store is returned as it was: its collections are untouched and no
  call has been added to \<open>calls\<close>, so neither \<^verbatim>\<open>create_collection\<close> nor
  \<^verbatim>\<open>create_payload_index\<close> was issued.
\<close>

theorem create_existing_name_fails:
  "collection_exists s name \<Longrightarrow>
   create_collection now s name description vs d = (Inl (ValueError (AlreadyExists name)), s)"
  by (simp add: create_collection_def)

theorem create_existing_name_fails_witness:
  "collection_exists example_store ''Curso_101'' \<and>
   create_collection ''2026-02-01'' example_store ''Curso_101'' (Some ''other'') 384 ''Dot'' =
     (Inl (ValueError (AlreadyExists ''Curso_101'')), example_store)"
proof -
  have ex: "collection_exists example_store ''Curso_101''"
    by (simp add: collection_exists_def client_get_collections_def example_store_def)
  from create_existing_name_fails [OF ex, of "''2026-02-01''" "Some ''other''" 384 "''Dot''"] ex
  show ?thesis
    by simp
qed

text \<open>
  C8. The distance string is mapped with \<^verbatim>\<open>"Cosine"\<close> to \<open>COSINE\<close>, \<^verbatim>\<open>"Euclid"\<close> to
  \<open>EUCLID\<close> and \<^verbatim>\<open>"Dot"\<close> to \<open>DOT\<close>; every other string gives \<open>COSINE\<close>. The mapped
  value is the distance of the vector parameters that \<open>create_collection\<close> sends to the
  store: the first call it issues for a new name.
\<close>

theorem distance_string_mapping:
  "distance_metric ''Cosine'' = COSINE \<and>
   distance_metric ''Euclid'' = EUCLID \<and>
   distance_metric ''Dot'' = DOT \<and>
   (d \<notin> {''Cosine'', ''Euclid'', ''Dot''} \<longrightarrow> distance_metric d = COSINE) \<and>
   (\<not> collection_exists s name \<longrightarrow>
      calls (snd (create_collection now s name description vs d)) ! length (calls s) =
        CreateCollection name \<lparr>vsize = vs, distance = distance_metric d\<rparr>
          (Some [(''description'', opt_str description), (''created_at'', PStr now)]))"
  by (simp add: distance_metric_def distance_map_def create_collection_calls)

theorem distance_string_mapping_witness:
  "''Manhattan'' \<notin> {''Cosine'', ''Euclid'', ''Dot''} \<and>
   distance_metric ''Manhattan'' = COSINE \<and>
   \<not> collection_exists empty_store ''Curso_101'' \<and>
   calls (snd (create_collection ''2026-01-20'' empty_store ''Curso_101'' None 768 ''Manhattan''))
     ! length (calls empty_store) =
     CreateCollection ''Curso_101'' \<lparr>vsize = 768, distance = COSINE\<rparr>
       (Some [(''description'', PNone), (''created_at'', PStr ''2026-01-20'')])"
proof -
  have ne: "\<not> collection_exists empty_store ''Curso_101''"
    by (simp add: collection_exists_def client_get_collections_def empty_store_def)
  have d: "''Manhattan'' \<notin> {''Cosine'', ''Euclid'', ''Dot''}"
    by simp
  from distance_string_mapping [of "''Manhattan''" empty_store "''Curso_101''"
      "''2026-01-20''" None 768] ne d
  show ?thesis
    by (simp add: opt_str_def)
qed

text \<open>
  C3. For a new name, when the store accepts the \<^verbatim>\<open>create_collection\<close> call,
  \<open>create_collection\<close> succeeds, and after that call it issues one
  \<^verbatim>\<open>create_payload_index\<close> call for each entry of \<open>DEFAULT_PAYLOAD_INDEXES\<close>, in its order:
  \<^verbatim>\<open>document_hash\<close>, \<^verbatim>\<open>filename\<close>, \<^verbatim>\<open>format\<close>, \<^verbatim>\<open>chunk\<close>, \<^verbatim>\<open>total_pages\<close>,
  \<^verbatim>\<open>date\<close>. The index calls are issued whether or not the store accepts them. There are
  six of them; \<^verbatim>\<open>total_chunks\<close> is not among the indexed fields.
\<close>

theorem create_attempts_default_indexes:
  assumes "\<not> collection_exists s name"
      and "fst (client_create_collection s name \<lparr>vsize = vs, distance = distance_metric d\<rparr>
                 (Some [(''description'', opt_str description), (''created_at'', PStr now)]))
           = Inr ()"
  shows "fst (create_collection now s name description vs d) =
           Inr \<lparr>success = True, collection_name = name, message = Created name\<rparr> \<and>
         calls (snd (create_collection now s name description vs d)) =
           calls s @
           [CreateCollection name \<lparr>vsize = vs, distance = distance_metric d\<rparr>
              (Some [(''description'', opt_str description), (''created_at'', PStr now)]),
            CreatePayloadIndex name ''document_hash'' KEYWORD,
            CreatePayloadIndex name ''filename'' KEYWORD,
            CreatePayloadIndex name ''format'' KEYWORD,
            CreatePayloadIndex name ''chunk'' INTEGER,
            CreatePayloadIndex name ''total_pages'' INTEGER,
            CreatePayloadIndex name ''date'' KEYWORD]"
proof -
  from assms have v: "valid_vector_params \<lparr>vsize = vs, distance = distance_metric d\<rparr>"
    by (simp add: create_accepted_iff)
  from assms(1) v have "fst (create_collection now s name description vs d) =
      Inr \<lparr>success = True, collection_name = name, message = Created name\<rparr>"
    by (simp add: create_collection_def client_create_collection_def log_call_def Let_def
          collection_exists_def client_get_collections_def)
  with v show ?thesis
    by (simp add: create_collection_calls [OF assms(1)] DEFAULT_PAYLOAD_INDEXES_def)
qed

theorem create_attempts_default_indexes_witness:
  "\<not> collection_exists empty_store ''Curso_101'' \<and>
   fst (client_create_collection empty_store ''Curso_101'' \<lparr>vsize = 768, distance = COSINE\<rparr>
          (Some [(''description'', PNone), (''created_at'', PStr ''2026-01-20'')])) = Inr () \<and>
   fst (create_collection ''2026-01-20'' empty_store ''Curso_101'' None 768 ''Cosine'') =
     Inr \<lparr>success = True, collection_name = ''Curso_101'', message = Created ''Curso_101''\<rparr> \<and>
   calls (snd (create_collection ''2026-01-20'' empty_store ''Curso_101'' None 768 ''Cosine'')) =
     [CreateCollection ''Curso_101'' \<lparr>vsize = 768, distance = COSINE\<rparr>
        (Some [(''description'', PNone), (''created_at'', PStr ''2026-01-20'')]),
      CreatePayloadIndex ''Curso_101'' ''document_hash'' KEYWORD,
      CreatePayloadIndex ''Curso_101'' ''filename'' KEYWORD,
      CreatePayloadIndex ''Curso_101'' ''format'' KEYWORD,
      CreatePayloadIndex ''Curso_101'' ''chunk'' INTEGER,
      CreatePayloadIndex ''Curso_101'' ''total_pages'' INTEGER,
      CreatePayloadIndex ''Curso_101'' ''date'' KEYWORD]"
proof -
  have ne: "\<not> collection_exists empty_store ''Curso_101''"
    by (simp add: collection_exists_def client_get_collections_def empty_store_def)
  have dm: "distance_metric ''Cosine'' = COSINE"
    by (simp add: distance_metric_def distance_map_def)
  have acc: "fst (client_create_collection empty_store ''Curso_101''
        \<lparr>vsize = 768, distance = distance_metric ''Cosine''\<rparr>
        (Some [(''description'', opt_str None), (''created_at'', PStr ''2026-01-20'')])) = Inr ()"
    by (simp add: create_accepted_iff [OF ne] valid_vector_params_def)
  have "calls empty_store = []"
    by (simp add: empty_store_def)
  with create_attempts_default_indexes [OF ne acc] ne acc
  show ?thesis
    by (simp add: opt_str_def dm)
qed

text \<open>
  The seven fields named as the known schema are not all indexed: on the empty store,
  the fields for which \<open>create_collection\<close> asks an index do not include
  \<^verbatim>\<open>total_chunks\<close>.
\<close>

theorem total_chunks_not_indexed:
  "\<not> set [''filename'', ''document_hash'', ''format'', ''total_pages'', ''total_chunks'',
           ''date'', ''chunk'']
      \<subseteq> set (indexed_fields ''Curso_101''
          (calls (snd (create_collection ''2026-01-20'' empty_store ''Curso_101'' None 768 ''Cosine''))))"
proof -
  have ne: "\<not> collection_exists empty_store ''Curso_101''"
    by (simp add: collection_exists_def client_get_collections_def empty_store_def)
  have "indexed_fields ''Curso_101''
          (calls (snd (create_collection ''2026-01-20'' empty_store ''Curso_101'' None 768 ''Cosine'')))
        = [''document_hash'', ''filename'', ''format'', ''chunk'', ''total_pages'', ''date'']"
    unfolding create_collection_calls [OF ne]
    by (simp add: DEFAULT_PAYLOAD_INDEXES_def indexed_fields_def empty_store_def
          valid_vector_params_def)
  then show ?thesis
    by simp
qed

section \<open>Updating, deleting and clearing a collection\<close>

text \<open>
  C9. \<open>update_collection\<close> raises the not-found \<^verbatim>\<open>ValueError\<close> for a missing collection
  and leaves the store as it was. For an existing one it succeeds, and the one call it
  issues writes the metadata \<^verbatim>\<open>{"description": description, "updated_at": now}\<close>: two
  keys, and \<^verbatim>\<open>created_at\<close> is not one of them. This holds whatever the store does with
  a metadata write (\<open>write_md\<close>).
\<close>

theorem update_writes_description_and_updated_at:
  "(\<not> collection_exists s name \<longrightarrow>
      update_collection write_md now s name description =
        (Inl (ValueError (CollectionNotFound name)), s)) \<and>
   (collection_exists s name \<longrightarrow>
      fst (update_collection write_md now s name description) =
        Inr \<lparr>success = True, collection_name = name, message = Updated name\<rparr> \<and>
      calls (snd (update_collection write_md now s name description)) =
        calls s @ [UpdateCollection name
                     [(''description'', opt_str description), (''updated_at'', PStr now)]] \<and>
      map_of [(''description'', opt_str description), (''updated_at'', PStr now)] ''created_at''
        = None)"
  by (simp add: update_collection_def client_update_collection_def log_call_def Let_def
        collection_exists_def client_get_collections_def)

theorem update_writes_description_and_updated_at_witness:
  "collection_exists example_store ''Curso_101'' \<and>
   fst (update_collection (\<lambda>old new. Some new) ''2026-02-01'' example_store ''Curso_101''
          (Some ''renamed'')) =
     Inr \<lparr>success = True, collection_name = ''Curso_101'', message = Updated ''Curso_101''\<rparr> \<and>
   calls (snd (update_collection (\<lambda>old new. Some new) ''2026-02-01'' example_store ''Curso_101''
          (Some ''renamed''))) =
     [UpdateCollection ''Curso_101''
        [(''description'', PStr ''renamed''), (''updated_at'', PStr ''2026-02-01'')]] \<and>
   \<not> collection_exists example_store ''Curso_999'' \<and>
   update_collection (\<lambda>old new. Some new) ''2026-02-01'' example_store ''Curso_999'' None =
     (Inl (ValueError (CollectionNotFound ''Curso_999'')), example_store)"
proof -
  have ex: "collection_exists example_store ''Curso_101''"
    by (simp add: collection_exists_def client_get_collections_def example_store_def)
  have ne: "\<not> collection_exists example_store ''Curso_999''"
    by (simp add: collection_exists_def client_get_collections_def example_store_def)
  have c: "calls example_store = []"
    by (simp add: example_store_def)
  from update_writes_description_and_updated_at
         [of example_store "''Curso_101''" "\<lambda>old new. Some new" "''2026-02-01''" "Some ''renamed''"]
       update_writes_description_and_updated_at
         [of example_store "''Curso_999''" "\<lambda>old new. Some new" "''2026-02-01''" None]
       ex ne c
  show ?thesis
    by (simp add: opt_str_def)
qed

text \<open>
  C6. \<open>delete_collection\<close> raises the not-found \<^verbatim>\<open>ValueError\<close> for a missing
  collection. For a collection whose reported \<^verbatim>\<open>points_count\<close> is positive, the call
  without \<^verbatim>\<open>force\<close> raises the not-empty \<^verbatim>\<open>ValueError\<close> and returns the store as it
  was, and the call with \<^verbatim>\<open>force\<close> succeeds and removes the collection (and nothing
  else) from the store.
\<close>

theorem delete_needs_force_when_not_empty:
  "(\<not> collection_exists s name \<longrightarrow>
      delete_collection s name force = (Inl (ValueError (CollectionNotFound name)), s)) \<and>
   (client_get_collection s name = Inr c \<and> points_count c = Some n \<and> 0 < n \<longrightarrow>
      delete_collection s name False = (Inl (ValueError (CollectionNotEmpty name)), s) \<and>
      fst (delete_collection s name True) =
        Inr \<lparr>success = True, collection_name = name, message = Deleted name\<rparr> \<and>
      \<not> collection_exists (snd (delete_collection s name True)) name \<and>
      collections (snd (delete_collection s name True)) = AList.delete name (collections s))"
proof (intro conjI impI)
  assume "\<not> collection_exists s name"
  then show "delete_collection s name force = (Inl (ValueError (CollectionNotFound name)), s)"
    by (simp add: delete_collection_def)
next
  assume a: "client_get_collection s name = Inr c \<and> points_count c = Some n \<and> 0 < n"
  then have ex: "collection_exists s name"
    by (simp add: get_collection_exists)
  from a ex show "delete_collection s name False = (Inl (ValueError (CollectionNotEmpty name)), s)"
    by (simp add: delete_collection_def)
  from a ex have d: "delete_collection s name True =
      (Inr \<lparr>success = True, collection_name = name, message = Deleted name\<rparr>,
       client_delete_collection s name)"
    by (simp add: delete_collection_def)
  from d show "fst (delete_collection s name True) =
      Inr \<lparr>success = True, collection_name = name, message = Deleted name\<rparr>"
    by simp
  from d show "\<not> collection_exists (snd (delete_collection s name True)) name"
    by (simp add: not_exists_after_delete)
  from d show "collections (snd (delete_collection s name True)) = AList.delete name (collections s)"
    by (simp add: client_delete_collection_def log_call_def Let_def)
qed

theorem delete_needs_force_when_not_empty_witness:
  "client_get_collection example_store ''Curso_101'' = Inr example_collection \<and>
   points_count example_collection = Some 5 \<and>
   delete_collection example_store ''Curso_101'' False =
     (Inl (ValueError (CollectionNotEmpty ''Curso_101'')), example_store) \<and>
   fst (delete_collection example_store ''Curso_101'' True) =
     Inr \<lparr>success = True, collection_name = ''Curso_101'', message = Deleted ''Curso_101''\<rparr> \<and>
   \<not> collection_exists (snd (delete_collection example_store ''Curso_101'' True)) ''Curso_101'' \<and>
   \<not> collection_exists example_store ''Curso_999'' \<and>
   delete_collection example_store ''Curso_999'' True =
     (Inl (ValueError (CollectionNotFound ''Curso_999'')), example_store)"
proof -
  have g: "client_get_collection example_store ''Curso_101'' = Inr example_collection"
    by (simp add: client_get_collection_def example_store_def)
  have p: "points_count example_collection = Some 5"
    by (simp add: example_collection_def)
  have ne: "\<not> collection_exists example_store ''Curso_999''"
    by (simp add: collection_exists_def client_get_collections_def example_store_def)
  from delete_needs_force_when_not_empty
         [of example_store "''Curso_101''" True example_collection 5]
       delete_needs_force_when_not_empty
         [of example_store "''Curso_999''" True example_collection 5]
       g p ne
  show ?thesis
    by simp
qed

text \<open>
  C10. \<open>delete_collection\<close> compares \<^verbatim>\<open>info.points_count > 0\<close> with no fallback for
  \<^verbatim>\<open>None\<close>. When the store reports no \<^verbatim>\<open>points_count\<close> for an existing collection,
  the call raises \<^verbatim>\<open>TypeError\<close>, with or without \<^verbatim>\<open>force\<close>; nothing is deleted, and
  the endpoint answers 500. \<open>get_collection_info\<close> and \<open>list_collections\<close> read
  \<^verbatim>\<open>info.points_count or 0\<close> instead: on the same store, whenever
  \<open>get_collection_info\<close> returns it reports 0 points, and it does return when the
  collection's \<^verbatim>\<open>description\<close> and \<^verbatim>\<open>created_at\<close> metadata are strings, null or absent
  (otherwise building \<^verbatim>\<open>CollectionStats\<close> raises \<^verbatim>\<open>ValidationError\<close>); likewise
  \<open>list_collections\<close> returns, with 0 points for this collection, when that holds of
  every collection of the store.
\<close>

theorem delete_without_count_is_server_error:
  assumes "client_get_collection s name = Inr c" and "points_count c = None"
  shows "delete_collection s name force = (Inl (TypeError NotOrderable), s) \<and>
         api_delete_collection s name force = (HTTPException 500 (TypeError NotOrderable), s) \<and>
         (\<forall>info. get_collection_info s name = Inr info \<longrightarrow> cs_points_count info = 0) \<and>
         (textual_metadata c \<longrightarrow>
            (\<exists>info. get_collection_info s name = Inr info \<and> cs_points_count info = 0)) \<and>
         (list_all textual_metadata (map snd (collections s)) \<longrightarrow>
            (\<exists>infos. list_collections s = Inr infos \<and>
               (\<exists>i \<in> set infos. cs_name i = name) \<and>
               (\<forall>i \<in> set infos. cs_name i = name \<longrightarrow> cs_points_count i = 0)))"
proof -
  from assms(1) have ex: "collection_exists s name"
    by (rule get_collection_exists)
  from assms ex have d: "delete_collection s name force = (Inl (TypeError NotOrderable), s)"
    by (simp add: delete_collection_def)
  from d have a: "api_delete_collection s name force = (HTTPException 500 (TypeError NotOrderable), s)"
    by (simp add: api_delete_collection_def)
  have zero: "cs_points_count info = 0" if "stats_of name c = Inr info" for info
    using stats_of_fields [OF that] assms(2) by (simp add: or_zero_def)
  from assms(1) ex have gi: "get_collection_info s name = stats_of name c"
    by (simp add: get_collection_info_def)
  have g1: "\<forall>info. get_collection_info s name = Inr info \<longrightarrow> cs_points_count info = 0"
    using gi zero by simp
  have g2: "\<exists>info. get_collection_info s name = Inr info \<and> cs_points_count info = 0"
    if "textual_metadata c"
    using stats_of_textual [OF that, of name] gi zero by auto
  have g3: "\<exists>infos. list_collections s = Inr infos \<and>
      (\<exists>i \<in> set infos. cs_name i = name) \<and>
      (\<forall>i \<in> set infos. cs_name i = name \<longrightarrow> cs_points_count i = 0)"
    if t: "list_all textual_metadata (map snd (collections s))"
  proof -
    let ?rel = "\<lambda>n info. \<exists>c. client_get_collection s n = Inr c \<and> stats_of n c = Inr info"
    from list_collections_stats [OF t] obtain infos where
      l: "list_collections s = Inr infos" and
      r: "list_all2 ?rel (client_get_collections s) infos"
      by blast
    from ex have "name \<in> set (client_get_collections s)"
      by (simp add: collection_exists_def)
    from list_all2_left [OF r this] obtain i where "i \<in> set infos" and "?rel name i"
      by blast
    then have l1: "\<exists>i \<in> set infos. cs_name i = name"
      using stats_of_fields by blast
    have "cs_points_count i = 0" if "i \<in> set infos" and "cs_name i = name" for i
    proof -
      from list_all2_right [OF r that(1)] obtain n where "?rel n i"
        by blast
      then obtain c1 where c1: "client_get_collection s n = Inr c1" "stats_of n c1 = Inr i"
        by blast
      from stats_of_fields [OF c1(2)] that(2) have "n = name"
        by simp
      with c1 assms(1) have "stats_of name c = Inr i"
        by simp
      then show ?thesis
        by (rule zero)
    qed
    with l l1 show ?thesis
      by blast
  qed
  from d a g1 g2 g3 show ?thesis
    by blast
qed

theorem delete_without_count_is_server_error_witness:
  "client_get_collection uncounted_store ''Curso_101'' =
     Inr (example_collection\<lparr>points_count := None\<rparr>) \<and>
   points_count (example_collection\<lparr>points_count := None\<rparr>) = None \<and>
   textual_metadata (example_collection\<lparr>points_count := None\<rparr>) \<and>
   list_all textual_metadata (map snd (collections uncounted_store)) \<and>
   delete_collection uncounted_store ''Curso_101'' True =
     (Inl (TypeError NotOrderable), uncounted_store) \<and>
   api_delete_collection uncounted_store ''Curso_101'' True =
     (HTTPException 500 (TypeError NotOrderable), uncounted_store) \<and>
   (\<exists>info. get_collection_info uncounted_store ''Curso_101'' = Inr info \<and>
      cs_points_count info = 0) \<and>
   (\<exists>infos. list_collections uncounted_store = Inr infos \<and>
      (\<exists>i \<in> set infos. cs_name i = ''Curso_101'' \<and> cs_points_count i = 0))"
proof -
  have g: "client_get_collection uncounted_store ''Curso_101'' =
      Inr (example_collection\<lparr>points_count := None\<rparr>)"
    by (simp add: client_get_collection_def uncounted_store_def)
  have p: "points_count (example_collection\<lparr>points_count := None\<rparr>) = None"
    by simp
  have t: "textual_metadata (example_collection\<lparr>points_count := None\<rparr>)"
    by (simp add: textual_metadata_def metadata_field_def text_or_absent_def
          example_collection_def)
  then have ts: "list_all textual_metadata (map snd (collections uncounted_store))"
    by (simp add: uncounted_store_def)
  from delete_without_count_is_server_error [OF g p, of True] t ts
  have "delete_collection uncounted_store ''Curso_101'' True =
      (Inl (TypeError NotOrderable), uncounted_store)"
    "api_delete_collection uncounted_store ''Curso_101'' True =
      (HTTPException 500 (TypeError NotOrderable), uncounted_store)"
    "\<exists>info. get_collection_info uncounted_store ''Curso_101'' = Inr info \<and>
       cs_points_count info = 0"
    "\<exists>infos. list_collections uncounted_store = Inr infos \<and>
       (\<exists>i \<in> set infos. cs_name i = ''Curso_101'') \<and>
       (\<forall>i \<in> set infos. cs_name i = ''Curso_101'' \<longrightarrow> cs_points_count i = 0)"
    by blast+
  moreover from this(4) have "\<exists>infos. list_collections uncounted_store = Inr infos \<and>
      (\<exists>i \<in> set infos. cs_name i = ''Curso_101'' \<and> cs_points_count i = 0)"
    by blast
  ultimately show ?thesis
    using g p t ts by blast
qed

text \<open>
  C5. \<open>clear_collection\<close> raises the not-found \<^verbatim>\<open>ValueError\<close> for a missing collection.
  For an existing one it succeeds by issuing \<^verbatim>\<open>delete_collection\<close> and then
  \<^verbatim>\<open>create_collection\<close> with the vector parameters and the metadata read before the
  deletion; afterwards the collection exists with the same vector size, distance and
  metadata, no points, and a \<^verbatim>\<open>points_count\<close> of 0.
\<close>

theorem clear_keeps_configuration:
  "(\<not> collection_exists s name \<longrightarrow>
      clear_collection s name = (Inl (ValueError (CollectionNotFound name)), s)) \<and>
   (client_get_collection s name = Inr c \<longrightarrow>
      fst (clear_collection s name) =
        Inr \<lparr>success = True, collection_name = name, message = Cleared name\<rparr> \<and>
      calls (snd (clear_collection s name)) =
        calls s @ [DeleteCollection name,
                   CreateCollection name (params_of (vectors c)) (metadata c)] \<and>
      (\<exists>c1. client_get_collection (snd (clear_collection s name)) name = Inr c1 \<and>
            vsize (params_of (vectors c1)) = vsize (params_of (vectors c)) \<and>
            distance (params_of (vectors c1)) = distance (params_of (vectors c)) \<and>
            metadata c1 = metadata c \<and>
            points_count c1 = Some 0 \<and>
            points c1 = []))"
proof (intro conjI impI)
  assume "\<not> collection_exists s name"
  then show "clear_collection s name = (Inl (ValueError (CollectionNotFound name)), s)"
    by (simp add: clear_collection_def)
next
  assume a: "client_get_collection s name = Inr c"
  then have ex: "collection_exists s name"
    by (rule get_collection_exists)
  let ?s1 = "client_delete_collection s name"
  let ?s2 = "?s1\<lparr>collections := AList.delete name (collections s) @
                      [(name, new_collection (vectors c) (metadata c))],
                 calls := calls s @ [DeleteCollection name,
                                     CreateCollection name (params_of (vectors c)) (metadata c)]\<rparr>"
  have gone: "name \<notin> fst ` set (AList.delete name (collections s))"
    by (rule delete_notin_dom)
  have cr: "client_create_collection ?s1 name (params_of (vectors c)) (metadata c) = (Inr (), ?s2)"
    using gone
    by (simp add: client_create_collection_def client_delete_collection_def log_call_def Let_def
          valid_params_of kept_params_of)
  from a ex cr have cl: "clear_collection s name =
      (Inr \<lparr>success = True, collection_name = name, message = Cleared name\<rparr>, ?s2)"
    by (simp add: clear_collection_def Let_def)
  from cl show "fst (clear_collection s name) =
      Inr \<lparr>success = True, collection_name = name, message = Cleared name\<rparr>"
    by simp
  from cl show "calls (snd (clear_collection s name)) =
      calls s @ [DeleteCollection name,
                 CreateCollection name (params_of (vectors c)) (metadata c)]"
    by simp
  from gone have "map_of (AList.delete name (collections s)) name = None"
    by (simp add: map_of_eq_None_iff)
  with cl have "client_get_collection (snd (clear_collection s name)) name =
      Inr (new_collection (vectors c) (metadata c))"
    by (simp add: client_get_collection_def map_add_def)
  then show "\<exists>c1. client_get_collection (snd (clear_collection s name)) name = Inr c1 \<and>
      vsize (params_of (vectors c1)) = vsize (params_of (vectors c)) \<and>
      distance (params_of (vectors c1)) = distance (params_of (vectors c)) \<and>
      metadata c1 = metadata c \<and>
      points_count c1 = Some 0 \<and>
      points c1 = []"
    by (simp add: new_collection_def)
qed

theorem clear_keeps_configuration_witness:
  "client_get_collection example_store ''Curso_101'' = Inr example_collection \<and>
   fst (clear_collection example_store ''Curso_101'') =
     Inr \<lparr>success = True, collection_name = ''Curso_101'', message = Cleared ''Curso_101''\<rparr> \<and>
   (\<exists>c1. client_get_collection (snd (clear_collection example_store ''Curso_101'')) ''Curso_101''
           = Inr c1 \<and>
         vsize (params_of (vectors c1)) = 768 \<and>
         distance (params_of (vectors c1)) = EUCLID \<and>
         metadata c1 =
           Some [(''description'', PStr ''demo''), (''created_at'', PStr ''2026-01-20'')] \<and>
         points_count c1 = Some 0 \<and>
         points c1 = []) \<and>
   \<not> collection_exists example_store ''Curso_999'' \<and>
   clear_collection example_store ''Curso_999'' =
     (Inl (ValueError (CollectionNotFound ''Curso_999'')), example_store)"
proof -
  have g: "client_get_collection example_store ''Curso_101'' = Inr example_collection"
    by (simp add: client_get_collection_def example_store_def)
  have ne: "\<not> collection_exists example_store ''Curso_999''"
    by (simp add: collection_exists_def client_get_collections_def example_store_def)
  have "params_of (vectors example_collection) = \<lparr>vsize = 768, distance = EUCLID\<rparr>"
    by (simp add: example_collection_def params_of_kept valid_vector_params_def)
  then have v: "vsize (params_of (vectors example_collection)) = 768"
    "distance (params_of (vectors example_collection)) = EUCLID"
    by simp_all
  have m: "metadata example_collection =
       Some [(''description'', PStr ''demo''), (''created_at'', PStr ''2026-01-20'')]"
    by (simp add: example_collection_def)
  from clear_keeps_configuration [of example_store "''Curso_101''" example_collection]
       clear_keeps_configuration [of example_store "''Curso_999''" example_collection]
       g ne
  show ?thesis
    by (simp add: v m)
qed

section \<open>Listing the documents of a collection\<close>

lemma scroll_all_collects:
  "map_of (collections s) cname = Some c \<Longrightarrow>
   scroll_all s cname offset acc =
     Inr (acc @ drop (case offset of None \<Rightarrow> 0 | Some n \<Rightarrow> n) (points c))"
proof (induction s cname offset acc rule: scroll_all.induct)
  case (1 s cname offset all_points)
  let ?off = "case offset of None \<Rightarrow> 0 | Some n \<Rightarrow> n"
  have page: "client_scroll s cname None 100 offset True =
      Inr (take 100 (drop ?off (points c)),
           if ?off + 100 < length (points c) then Some (?off + 100) else None)"
    using "1.prems" by (simp add: client_scroll_def Let_def)
  show ?case
  proof (cases "?off + 100 < length (points c)")
    case True
    with page have page1: "client_scroll s cname None 100 offset True =
        Inr (take 100 (drop ?off (points c)), Some (?off + 100))"
      by simp
    have "scroll_all s cname (Some (?off + 100)) (all_points @ take 100 (drop ?off (points c))) =
        Inr ((all_points @ take 100 (drop ?off (points c))) @ drop (?off + 100) (points c))"
      using "1.IH" [OF page1 refl refl "1.prems"] by simp
    moreover have "take 100 (drop ?off (points c)) @ drop (?off + 100) (points c) =
        drop ?off (points c)"
      by (metis add.commute append_take_drop_id drop_drop)
    ultimately show ?thesis
      using page1 by (subst scroll_all.simps) simp
  next
    case False
    then have "take 100 (drop ?off (points c)) = drop ?off (points c)"
      by simp
    with page False show ?thesis
      by (subst scroll_all.simps) simp
  qed
qed

lemma list_documents_scanned:
  assumes "client_get_collection s cname = Inr c"
  shows "list_documents_in_collection s cname =
     (case group_points [] (points c) of
        Inl e \<Rightarrow> Inl e
      | Inr docs \<Rightarrow>
          Inr \<lparr>listed_collection = cname, total_documents = length docs,
               total_points = length (points c), documents = map snd docs\<rparr>)"
proof -
  from assms have ex: "collection_exists s cname"
    by (rule get_collection_exists)
  from assms have "map_of (collections s) cname = Some c"
    by (simp add: get_collection_Some)
  from scroll_all_collects [OF this, of None "[]"]
  have "scroll_all s cname None [] = Inr (points c)"
    by simp
  with ex show ?thesis
    by (simp add: list_documents_in_collection_def)
qed














text \<open>
  The listing of the example collection: two documents, of three and two chunks, and
  five points. The attributes of \<^verbatim>\<open>a.pdf\<close> are those of its first point, not the
  \<^verbatim>\<open>format\<close> of its second; \<^verbatim>\<open>b.pdf\<close> has no \<^verbatim>\<open>total_pages\<close> although its second
  point has one.
\<close>

lemma list_documents_example:
  "list_documents_in_collection example_store ''Curso_101'' =
     Inr \<lparr>listed_collection = ''Curso_101'', total_documents = 2, total_points = 5,
          documents =
            [\<lparr>filename = PStr ''a.pdf'', document_hash = PStr ''f282bcdb'',
              format = PStr ''pdf'', total_pages = PInt 26, total_chunks = PInt 3,
              date = PStr ''2026-01-20'', chunks_count = 3\<rparr>,
             \<lparr>filename = PStr ''b.pdf'', document_hash = PNone, format = PStr ''pdf'',
              total_pages = PNone, total_chunks = PNone, date = PNone, chunks_count = 2\<rparr>]\<rparr>"
proof -
  have g: "client_get_collection example_store ''Curso_101'' = Inr example_collection"
    by (simp add: client_get_collection_def example_store_def)
  have p: "points example_collection = example_points"
    by (simp add: example_collection_def)
  show ?thesis
    unfolding list_documents_scanned [OF g] p
    by (simp add: example_points_def group_point_def point_filename_def first_seen_def
          dict_get_default_def dict_get_def or_empty_def Let_def)
qed


section \<open>Deleting a document\<close>

lemma filename_filter_unbound:
  "filename_filter module_globals fname = Inl (NameError ''Filter'')"
  by (simp add: filename_filter_def load_name_def module_globals_def)

lemma delete_document_raises_name_error:
  "collection_exists s cname \<Longrightarrow>
   delete_document_by_filename s cname fname = (Inl (NameError ''Filter''), s)"
  by (simp add: delete_document_by_filename_def delete_document_by_filename_in_def
        filename_filter_unbound)

text \<open>
  In a module namespace that binds \<^verbatim>\<open>Filter\<close>, \<^verbatim>\<open>FieldCondition\<close> and
  \<^verbatim>\<open>MatchValue\<close>, the method counts the matching points (at most 10000 of them), raises
  the document-not-found \<^verbatim>\<open>ValueError\<close> when there is none, and otherwise deletes by the
  same filter and returns the count.
\<close>

lemma delete_document_with_names_bound:
  assumes "{''Filter'', ''FieldCondition'', ''MatchValue''} \<subseteq> set globals"
      and "client_get_collection s cname = Inr c"
  shows "delete_document_by_filename_in globals s cname fname =
     (let flt = Filter [FieldCondition ''filename'' (PStr fname)];
          total = min 10000 (length (filter (matches flt) (points c)))
      in if total = 0 then (Inl (ValueError (DocumentNotFound fname cname)), s)
         else (Inr \<lparr>success = True, collection_name = cname,
                    message = DeletedChunks total fname,
                    deleted_filename = fname, deleted_points = total\<rparr>,
               client_delete_points s cname flt))"
proof -
  from assms(1) have f: "filename_filter globals fname =
      Inr (Filter [FieldCondition ''filename'' (PStr fname)])"
    by (simp add: filename_filter_def load_name_def)
  from assms(2) have ex: "collection_exists s cname"
    by (rule get_collection_exists)
  from assms(2) have m: "map_of (collections s) cname = Some c"
    by (simp add: get_collection_Some)
  show ?thesis
    using ex m
    by (simp add: delete_document_by_filename_in_def f client_scroll_def Let_def min_def)
qed

text \<open>
  C1. The claim is that \<^verbatim>\<open>deleteDocument\<close> on an existing collection answers 404 when
  no point has the filename, and otherwise deletes the matching points and returns their
  number as \<^verbatim>\<open>deleted_points\<close>. The module imports only \<^verbatim>\<open>Distance\<close>,
  \<^verbatim>\<open>VectorParams\<close> and \<^verbatim>\<open>PayloadSchemaType\<close> from \<^verbatim>\<open>qdrant_client.models\<close>, so
  building the scroll filter raises \<^verbatim>\<open>NameError\<close> on \<^verbatim>\<open>Filter\<close>. On the example store
  the endpoint answers 500 and changes nothing, both for \<^verbatim>\<open>a.pdf\<close>, which three points
  carry, and for \<^verbatim>\<open>missing.pdf\<close>, which none carries.
\<close>

theorem delete_document_name_error:
  "api_delete_document example_store ''Curso_101'' ''a.pdf'' =
     (HTTPException 500 (NameError ''Filter''), example_store) \<and>
   api_delete_document example_store ''Curso_101'' ''missing.pdf'' =
     (HTTPException 500 (NameError ''Filter''), example_store) \<and>
   length (filter (matches (Filter [FieldCondition ''filename'' (PStr ''a.pdf'')]))
             example_points) = 3 \<and>
   length (filter (matches (Filter [FieldCondition ''filename'' (PStr ''missing.pdf'')]))
             example_points) = 0"
proof -
  have ex: "collection_exists example_store ''Curso_101''"
    by (simp add: collection_exists_def client_get_collections_def example_store_def)
  have "api_delete_document example_store ''Curso_101'' fname =
      (HTTPException 500 (NameError ''Filter''), example_store)" for fname
    by (simp add: api_delete_document_def delete_document_raises_name_error [OF ex])
  then show ?thesis
    by (simp add: example_points_def or_empty_def)
qed

section \<open>The statistics endpoint\<close>

text \<open>
  The endpoint answers 404 when \<open>get_collection_info\<close> raises \<^verbatim>\<open>ValueError\<close> (a
  missing collection, or metadata that \<^verbatim>\<open>CollectionStats\<close> does not admit) and 500
  otherwise; it never answers 200.
\<close>

lemma stats_status:
  "http_status (api_get_collection_stats counts s cname) =
     (case get_collection_info s cname of
        Inr info \<Rightarrow> 500
      | Inl (ValueError v) \<Rightarrow> 404
      | Inl e \<Rightarrow> 500)"
  by (simp add: api_get_collection_stats_def api_get_collection_stats_in_def
        manager_attributes_def split: sum.splits error.splits)

lemma stats_never_ok: "http_status (api_get_collection_stats counts s cname) \<noteq> 200"
  by (simp add: stats_status split: sum.splits error.splits)

text \<open>
  C2. The claim is that \<^verbatim>\<open>GET /api/collections/{name}/stats\<close> answers 200 with the
  merged statistics for an existing collection. The handler calls
  \<^verbatim>\<open>manager.get_collection_documents_count\<close>, an attribute the manager class does not
  have: for the existing collection of the example store the lookup raises
  \<^verbatim>\<open>AttributeError\<close> and the endpoint answers 500, whatever such a method would
  compute.
\<close>

theorem stats_endpoint_attribute_error:
  "collection_exists example_store ''Curso_101'' \<and>
   api_get_collection_stats counts example_store ''Curso_101'' =
     HTTPException 500 (AttributeError ''get_collection_documents_count'')"
proof -
  have g: "client_get_collection example_store ''Curso_101'' = Inr example_collection"
    by (simp add: client_get_collection_def example_store_def)
  then have ex: "collection_exists example_store ''Curso_101''"
    by (rule get_collection_exists)
  have "textual_metadata example_collection"
    by (simp add: textual_metadata_def metadata_field_def text_or_absent_def
          example_collection_def)
  then obtain info where "stats_of ''Curso_101'' example_collection = Inr info"
    using stats_of_textual by blast
  with g ex have "get_collection_info example_store ''Curso_101'' = Inr info"
    by (simp add: get_collection_info_def)
  then have "api_get_collection_stats counts example_store ''Curso_101'' =
      HTTPException 500 (AttributeError ''get_collection_documents_count'')"
    by (simp add: api_get_collection_stats_def api_get_collection_stats_in_def
          manager_attributes_def)
  with ex show ?thesis
    by simp
qed

end
